theory Spec2Isabelle
  imports Complex_Main
begin

section \<open>Time and values\<close>

text \<open>
  The monitor works with naive local \<open>datetime\<close> values. A naive datetime is a point of
  the proleptic Gregorian time line with microsecond resolution; subtraction, comparison
  and \<open>replace(minute=0, second=0, microsecond=0)\<close> are exact integer arithmetic on it. A
  \<open>datetime\<close> is modelled as the number of microseconds since the origin of that time line,
  a \<open>timedelta\<close> as a number of microseconds.

  Python floats are modelled as real numbers: rounding error, infinities and NaN are not
  part of the model.
\<close>

type_synonym datetime = int
type_synonym timedelta = int

definition timedelta_hours :: "int \<Rightarrow> timedelta" where
  "timedelta_hours h = h * 3600000000"

definition timedelta_seconds :: "int \<Rightarrow> timedelta" where
  "timedelta_seconds s = s * 1000000"

definition replace_hour :: "datetime \<Rightarrow> datetime" where
  \<comment> \<open>\<open>ts.replace(minute=0, second=0, microsecond=0)\<close>\<close>
  "replace_hour ts = ts - ts mod 3600000000"

section \<open>The alert decision (\<open>should_alert\<close>, monitor.py lines 199--217)\<close>

text \<open>
  \<open>last_alert_time\<close> and \<open>last_outside_state\<close> are dictionaries created with exactly the
  keys \<open>"temp"\<close> and \<open>"hum"\<close> (lines 167--168); no key is ever added or removed, and
  \<open>should_alert\<close> is called with these two literals only. The keys are the datatype
  \<open>kind\<close> and each dictionary is a total function on it.
\<close>

datatype kind = Temp | Hum

record alert_state =
  last_alert_time :: "kind \<Rightarrow> datetime option"
  last_outside_state :: "kind \<Rightarrow> bool"

text \<open>
  \<open>now\<close> is the value of the \<open>datetime.now()\<close> call at line 200. The result is the returned
  boolean together with the updated dictionaries.
\<close>

definition should_alert ::
  "datetime \<Rightarrow> kind \<Rightarrow> real \<Rightarrow> real \<Rightarrow> real \<Rightarrow> 'a alert_state_scheme
    \<Rightarrow> bool \<times> 'a alert_state_scheme" where
  "should_alert now kind val min_val max_val st =
     (let outside = (val < min_val \<or> val > max_val);
          last_alert = last_alert_time st kind;
          previously_outside = last_outside_state st kind
      in if outside then
           (if \<not> previously_outside then
              (False, st\<lparr>last_outside_state := (last_outside_state st)(kind := True)\<rparr>)
            else if previously_outside \<and>
                    (case last_alert of None \<Rightarrow> True
                     | Some t \<Rightarrow> now - t \<ge> timedelta_hours 1) then
              (True, st\<lparr>last_alert_time := (last_alert_time st)(kind \<mapsto> now)\<rparr>)
            else (False, st))
         else (False, st\<lparr>last_outside_state := (last_outside_state st)(kind := False)\<rparr>))"

text \<open>The state with which \<open>main\<close> starts (lines 167--168).\<close>

definition initial_alert_state :: alert_state where
  "initial_alert_state =
     \<lparr>last_alert_time = (\<lambda>_. None), last_outside_state = (\<lambda>_. False)\<rparr>"

text \<open>
  Successive poll cycles call \<open>should_alert\<close> for one metric with the clock value and the
  reading of each cycle; \<open>alert_run\<close> collects the returned booleans in order.
\<close>

fun alert_run ::
  "kind \<Rightarrow> real \<Rightarrow> real \<Rightarrow> (datetime \<times> real) list \<Rightarrow> 'a alert_state_scheme
    \<Rightarrow> bool list \<times> 'a alert_state_scheme" where
  "alert_run kind min_val max_val [] st = ([], st)"
| "alert_run kind min_val max_val ((now, val) # rest) st =
     (case should_alert now kind val min_val max_val st of
        (a, st') \<Rightarrow>
          (case alert_run kind min_val max_val rest st' of
             (as, st'') \<Rightarrow> (a # as, st'')))"


section \<open>Exceptions, JSON values and library functions\<close>

text \<open>
  Every \<open>raise\<close> of the source and every exception a library call can raise is a value
  \<open>Raise c msg\<close>: the class the handlers test and the message. A function that can raise
  returns \<open>exn + 'a\<close>, with \<open>Inl\<close> for the exception. All classes below are subclasses of
  Python's \<open>Exception\<close>, so \<open>except Exception\<close> catches each of them; the handlers for a
  named class (\<open>RuntimeError\<close>, \<open>FileNotFoundError\<close>) test the class for equality.
  The messages of exceptions raised by the Python library are shortened (no quotation
  marks, no formatted operands); no handler of the program reads a message.
\<close>

datatype exn_class =
    RuntimeError | ValueError | TypeError | AttributeError | UnboundLocalError
  | FileNotFoundError | PermissionError | OSError | JSONDecodeError | SMTPException

datatype exn = Raise exn_class string

fun exn_class_of :: "exn \<Rightarrow> exn_class" where
  "exn_class_of (Raise c msg) = c"

text \<open>
  \<open>settings.json\<close> is read with \<open>json.load\<close>, which returns whatever JSON value the file
  holds. An object is the list of the items of the resulting \<open>dict\<close>.
\<close>

datatype json =
    JNull | JBool bool | JInt int | JFloat real | JStr string
  | JArr "json list" | JObj "(string \<times> json) list"

text \<open>
  The functions of the Python library whose results the program formats or parses, taken
  as parameters: \<open>int\<close> and \<open>float\<close> of a string (\<open>None\<close> where Python raises
  \<open>ValueError\<close>), \<open>str\<close> of a float and of a JSON value, and
  \<open>strftime("%Y-%m-%d %H:%M")\<close>.
\<close>

record builtins =
  int_of_str :: "string \<Rightarrow> int option"
  float_of_str :: "string \<Rightarrow> real option"
  str_float :: "real \<Rightarrow> string"
  str_json :: "json \<Rightarrow> string"
  strftime_minutes :: "datetime \<Rightarrow> string"

fun truthy :: "json \<Rightarrow> bool" where
  "truthy JNull = False"
| "truthy (JBool b) = b"
| "truthy (JInt i) = (i \<noteq> 0)"
| "truthy (JFloat x) = (x \<noteq> 0)"
| "truthy (JStr s) = (s \<noteq> [])"
| "truthy (JArr xs) = (xs \<noteq> [])"
| "truthy (JObj kvs) = (kvs \<noteq> [])"

definition py_or :: "json \<Rightarrow> json \<Rightarrow> json" where
  \<comment> \<open>\<open>a or b\<close>\<close>
  "py_or a b = (if truthy a then a else b)"

fun py_float :: "builtins \<Rightarrow> json \<Rightarrow> exn + real" where
  "py_float bi (JInt i) = Inr (real_of_int i)"
| "py_float bi (JFloat x) = Inr x"
| "py_float bi (JBool b) = Inr (if b then 1 else 0)"
| "py_float bi (JStr s) =
     (case float_of_str bi s of
        None \<Rightarrow> Inl (Raise ValueError ''could not convert string to float'')
      | Some x \<Rightarrow> Inr x)"
| "py_float bi j = Inl (Raise TypeError ''float() argument must be a string or a real number'')"

fun py_int :: "builtins \<Rightarrow> json \<Rightarrow> exn + int" where
  "py_int bi (JInt i) = Inr i"
| "py_int bi (JFloat x) = Inr (if x < 0 then \<lceil>x\<rceil> else \<lfloor>x\<rfloor>)"
| "py_int bi (JBool b) = Inr (if b then 1 else 0)"
| "py_int bi (JStr s) =
     (case int_of_str bi s of
        None \<Rightarrow> Inl (Raise ValueError ''invalid literal for int() with base 10'')
      | Some i \<Rightarrow> Inr i)"
| "py_int bi j =
     Inl (Raise TypeError ''int() argument must be a string, a bytes-like object or a real number'')"

definition dict_get :: "json \<Rightarrow> string \<Rightarrow> json \<Rightarrow> exn + json" where
  \<comment> \<open>\<open>settings.get(key, default)\<close>; a value that is no \<open>dict\<close> has no method \<open>get\<close>\<close>
  "dict_get settings key dflt =
     (case settings of
        JObj kvs \<Rightarrow> Inr (case map_of kvs key of None \<Rightarrow> dflt | Some v \<Rightarrow> v)
      | _ \<Rightarrow> Inl (Raise AttributeError ''object has no attribute get''))"

subsection \<open>Decimal output\<close>

definition digit_char :: "nat \<Rightarrow> char" where
  "digit_char d = ''0123456789'' ! d"

fun str_nat :: "nat \<Rightarrow> string" where
  "str_nat n = (if n < 10 then [digit_char n] else str_nat (n div 10) @ [digit_char (n mod 10)])"

declare str_nat.simps [simp del]

definition str_int :: "int \<Rightarrow> string" where
  "str_int i = (if i < 0 then CHR ''-'' # str_nat (nat (- i)) else str_nat (nat i))"

text \<open>
  The format specifications \<open>.1f\<close> and \<open> .1f\<close> (with the space flag) of a float: one digit
  after the point, the exact value rounded half to even, a minus sign for a negative
  value, and with the space flag a leading space for a value that is not negative.
\<close>

definition round_half_even :: "real \<Rightarrow> int" where
  "round_half_even x =
     (let q = \<lfloor>x\<rfloor>; r = x - real_of_int q
      in if r > 1 / 2 \<or> (r = 1 / 2 \<and> odd q) then q + 1 else q)"

definition format_1f :: "bool \<Rightarrow> real \<Rightarrow> string" where
  "format_1f space_flag x =
     (let tenths = nat (round_half_even (\<bar>x\<bar> * 10))
      in (if x < 0 then ''-'' else if space_flag then '' '' else '''') @
         str_nat (tenths div 10) @ ''.'' @ [digit_char (tenths mod 10)])"

section \<open>Sensor acquisition (\<open>get_current_data\<close>, current\_data.py lines 33--101)\<close>

text \<open>
  \<open>settings.json\<close> as a read finds it: absent, or present with the outcome of opening and
  parsing it.
\<close>

type_synonym settings_file = "(exn + json) option"

definition current_data_load_settings :: "settings_file \<Rightarrow> exn + json" where
  \<comment> \<open>\<open>load_settings\<close> of current\_data.py\<close>
  "current_data_load_settings file =
     (case file of
        None \<Rightarrow> Inl (Raise FileNotFoundError ''[ERROR] settings.json not found.'')
      | Some r \<Rightarrow> r)"

text \<open>
  One loop iteration reads the property \<open>temperature\<close> and then the property \<open>humidity\<close> of
  the device; each read returns a number or \<open>None\<close>, or raises. \<open>dht env i\<close> is what the
  device does at iteration \<open>i\<close> (counted from 0).
\<close>

record attempt =
  temperature :: "exn + real option"
  humidity :: "exn + real option"

record sensor_env =
  sensor_settings_file :: settings_file
  board_has_pin :: "json \<Rightarrow> bool"
  dht_init :: "exn option"
  dht :: "nat \<Rightarrow> attempt"

text \<open>
  What a call does to the world: the number of loop iterations that read the device, the
  arguments of \<open>time.sleep\<close> in order, and whether \<open>dhtDevice.exit()\<close> was called.
\<close>

record sensor_trace =
  reads :: nat
  sleeps :: "real list"
  released :: bool

definition read_attempt :: "attempt \<Rightarrow> exn + real \<times> real" where
  \<comment> \<open>lines 72--89: the body of the inner \<open>try\<close>\<close>
  "read_attempt a =
     (case temperature a of
        Inl e \<Rightarrow> Inl e
      | Inr t \<Rightarrow>
          (case humidity a of
             Inl e \<Rightarrow> Inl e
           | Inr h \<Rightarrow>
               (case (t, h) of
                  (Some tv, Some hv) \<Rightarrow> Inr (tv * 0.9, hv * 1.00)
                | _ \<Rightarrow> Inl (Raise RuntimeError ''Received None from sensor''))))"

text \<open>
  The \<open>for attempt in range(max_retries)\<close> loop: \<open>attempt\<close> is the loop variable and the
  fourth argument the number of iterations left. \<open>time.sleep\<close> raises \<open>ValueError\<close> on a
  negative argument, inside the handler, so that exception leaves the loop.
\<close>

fun retry_loop ::
  "(nat \<Rightarrow> attempt) \<Rightarrow> real \<Rightarrow> int \<Rightarrow> nat \<Rightarrow> nat \<Rightarrow> sensor_trace
    \<Rightarrow> (exn + real \<times> real) \<times> sensor_trace" where
  "retry_loop dev retry_delay max_retries attempt 0 tr =
     (Inl (Raise RuntimeError
        (''Failed to read valid data from DHT22 after '' @ str_int max_retries @ '' attempts'')),
      tr)"
| "retry_loop dev retry_delay max_retries attempt (Suc left) tr =
     (let tr1 = tr\<lparr>reads := Suc (reads tr)\<rparr>
      in case read_attempt (dev attempt) of
           Inr r \<Rightarrow> (Inr r, tr1)
         | Inl e \<Rightarrow>
             if exn_class_of e = RuntimeError then
               (if retry_delay < 0 then
                  (Inl (Raise ValueError ''sleep length must be non-negative''), tr1)
                else retry_loop dev retry_delay max_retries (Suc attempt) left
                       (tr1\<lparr>sleeps := sleeps tr1 @ [retry_delay]\<rparr>))
             else (Inl e, tr1))"

definition get_current_data ::
  "builtins \<Rightarrow> int \<Rightarrow> real \<Rightarrow> sensor_env \<Rightarrow> (exn + real \<times> real) \<times> sensor_trace" where
  "get_current_data bi max_retries retry_delay env =
     (let tr0 = \<lparr>reads = 0, sleeps = [], released = False\<rparr>
      in case current_data_load_settings (sensor_settings_file env) of
           Inl e \<Rightarrow> (Inl e, tr0)
         | Inr settings \<Rightarrow>
             (case dict_get settings ''data_pin'' JNull of
                Inl e \<Rightarrow> (Inl e, tr0)
              | Inr pin_number \<Rightarrow>
                  if pin_number = JNull then
                    (Inl (Raise ValueError ''[ERROR] data_pin not defined in settings.json''), tr0)
                  else if \<not> board_has_pin env pin_number then
                    (Inl (Raise ValueError
                       (''Invalid data_pin '' @ str_json bi pin_number @ '' for board library'')),
                     tr0)
                  else
                    (case dht_init env of
                       Some e \<Rightarrow> (Inl e, tr0)
                     | None \<Rightarrow>
                         (case retry_loop (dht env) retry_delay max_retries 0 (nat max_retries) tr0 of
                            (r, tr) \<Rightarrow> (r, tr\<lparr>released := True\<rparr>)))))"

section \<open>Host diagnostics at module level (current\_data.py lines 110--130, monitor.py lines 120--140)\<close>

text \<open>
  Both modules run the same statements when they are loaded. \<open>thermal_zone0\<close> is the outcome
  of opening and reading \<open>/sys/class/thermal/thermal_zone0/temp\<close> (an absent path raises
  \<open>FileNotFoundError\<close>); the memory figures are what \<open>psutil.virtual_memory()\<close> reports.
\<close>

record host =
  thermal_zone0 :: "exn + string"
  mem_percent :: real
  mem_used :: real
  mem_total :: real

record diagnostics =
  current_temp :: real
  temp_percent :: real
  ram_percent :: real
  ram_used_mb :: real
  ram_total_mb :: real

definition get_cpu_temp :: "builtins \<Rightarrow> host \<Rightarrow> exn + real option" where
  "get_cpu_temp bi h =
     (case thermal_zone0 h of
        Inl e \<Rightarrow> if exn_class_of e = FileNotFoundError then Inr None else Inl e
      | Inr s \<Rightarrow>
          (case int_of_str bi s of
             None \<Rightarrow> Inl (Raise ValueError ''invalid literal for int() with base 10'')
           | Some temp_raw \<Rightarrow> Inr (Some (real_of_int temp_raw / 1000))))"

definition MIN_T :: real where "MIN_T = 18"
definition MAX_T :: real where "MAX_T = 75"

definition module_level :: "builtins \<Rightarrow> host \<Rightarrow> exn + diagnostics" where
  \<comment> \<open>the statements from \<open>current_temp = get_cpu_temp()\<close> to \<open>ram_total_mb = ...\<close>\<close>
  "module_level bi h =
     (case get_cpu_temp bi h of
        Inl e \<Rightarrow> Inl e
      | Inr None \<Rightarrow>
          Inl (Raise TypeError ''unsupported operand type(s) for -: NoneType and int'')
      | Inr (Some t) \<Rightarrow>
          Inr \<lparr>current_temp = t,
               temp_percent = max 0 (min 100 ((t - MIN_T) / (MAX_T - MIN_T) * 100)),
               ram_percent = mem_percent h,
               ram_used_mb = mem_used h / 1024 / 1024,
               ram_total_mb = mem_total h / 1024 / 1024\<rparr>)"

section \<open>The monitor (monitor.py)\<close>

text \<open>
  An expression that raises ends the function it is in, unless a handler catches it:
  \<open>and_then r f\<close> continues with \<open>f\<close> when \<open>r\<close> returned and passes the exception on when
  it raised.
\<close>

definition and_then :: "exn + 'a \<Rightarrow> ('a \<Rightarrow> exn + 'b) \<Rightarrow> exn + 'b" where
  "and_then r f = (case r of Inl e \<Rightarrow> Inl e | Inr x \<Rightarrow> f x)"

subsection \<open>\<open>load_settings\<close> (lines 34--52)\<close>

definition defaults :: json where
  "defaults =
     JObj [(''min_temp'', JFloat 18.0), (''max_temp'', JFloat 22.0),
           (''min_hum'', JFloat 40.0), (''max_hum'', JFloat 70.0),
           (''data_pin'', JInt 4), (''email_user'', JStr ''''),
           (''email_pass'', JStr ''''), (''email_to'', JStr ''''),
           (''smtp_host'', JStr ''smtp.gmail.com''),
           (''smtp_port'', JInt 465)]"

text \<open>
  \<open>write_outcome\<close> is what writing the defaults raises, if anything, when the file is
  absent. No statement of \<open>load_settings\<close> is inside a \<open>try\<close>.
\<close>

definition load_settings :: "settings_file \<Rightarrow> exn option \<Rightarrow> exn + json" where
  "load_settings file write_outcome =
     (case file of
        None \<Rightarrow> (case write_outcome of Some e \<Rightarrow> Inl e | None \<Rightarrow> Inr defaults)
      | Some r \<Rightarrow> r)"

subsection \<open>The world the monitor writes to\<close>

text \<open>
  \<open>data_file\<close> is the content of \<open>static/data/data_log.csv\<close> (\<open>None\<close> while the file does
  not exist); \<open>outbox\<close> lists the messages that \<open>sendmail\<close> accepted, oldest first. Output
  to the terminal is not part of the model, except where evaluating what is printed can
  raise.
\<close>

record message =
  msg_subject :: string
  msg_body :: string
  msg_from :: json
  msg_to :: json
  msg_host :: json
  msg_port :: int

record world =
  data_file :: "string option"
  outbox :: "message list"

subsection \<open>\<open>send_email\<close> (lines 59--86)\<close>

text \<open>
  \<open>transport\<close> is what the body of the \<open>try\<close> (building the message, connecting, logging in,
  sending) raises, if anything. Lines 61--65 run before the guard and before the \<open>try\<close>.
\<close>

definition send_email ::
  "builtins \<Rightarrow> exn option \<Rightarrow> string \<Rightarrow> string \<Rightarrow> json \<Rightarrow> world \<Rightarrow> exn + bool \<times> world" where
  "send_email bi transport subject body settings w =
     and_then (dict_get settings ''email_user'' JNull) (\<lambda>u.
     and_then (dict_get settings ''email_pass'' JNull) (\<lambda>p.
     and_then (dict_get settings ''email_to'' JNull) (\<lambda>r.
     and_then (dict_get settings ''smtp_host'' (JStr ''smtp.gmail.com'')) (\<lambda>host.
     and_then (dict_get settings ''smtp_port'' (JInt 465)) (\<lambda>port_value.
     and_then (py_int bi port_value) (\<lambda>port.
       let user = py_or u (JStr '''');
           password = py_or p (JStr '''');
           recipient = py_or r (JStr '''')
       in if \<not> (truthy user \<and> truthy password \<and> truthy recipient) then Inr (False, w)
          else
            (case transport of
               None \<Rightarrow>
                 Inr (True,
                      w\<lparr>outbox := outbox w @
                         [\<lparr>msg_subject = subject, msg_body = body, msg_from = user,
                           msg_to = recipient, msg_host = host, msg_port = port\<rparr>]\<rparr>)
             | Some e \<Rightarrow> Inr (False, w))))))))"

definition format_timestamp :: "builtins \<Rightarrow> datetime \<Rightarrow> string" where
  "format_timestamp bi ts = strftime_minutes bi ts"

subsection \<open>\<open>append_csv\<close> (lines 104--111)\<close>

text \<open>
  \<open>csv.writer\<close> with its default dialect: fields joined by commas, a field holding a comma,
  a double quote, a carriage return or a line feed is put in double quotes with its
  double quotes doubled, and the row ends with carriage return and line feed.
\<close>

definition csv_special :: "char \<Rightarrow> bool" where
  "csv_special c = (c = CHR '','' \<or> c = CHR 0x22 \<or> c = CHR 0x0D \<or> c = CHR 0x0A)"

definition csv_field :: "string \<Rightarrow> string" where
  "csv_field f =
     (if list_ex csv_special f then
        [CHR 0x22] @ concat (map (\<lambda>c. if c = CHR 0x22 then [c, c] else [c]) f) @ [CHR 0x22]
      else f)"

fun join_commas :: "string list \<Rightarrow> string" where
  "join_commas [] = []"
| "join_commas [f] = f"
| "join_commas (f # fs) = f @ '','' @ join_commas fs"

definition csv_line :: "string list \<Rightarrow> string" where
  "csv_line row = join_commas (map csv_field row) @ [CHR 0x0D, CHR 0x0A]"

text \<open>
  \<open>outcome\<close> is what opening or writing raises, if anything; the handler at line 110
  catches it. Opening in mode \<open>"a"\<close> creates an absent file.
\<close>

definition append_csv :: "exn option \<Rightarrow> string list \<Rightarrow> world \<Rightarrow> world" where
  "append_csv outcome row w =
     (case outcome of
        Some e \<Rightarrow> w
      | None \<Rightarrow>
          w\<lparr>data_file :=
              Some ((case data_file w of None \<Rightarrow> [] | Some c \<Rightarrow> c) @ csv_line row)\<rparr>)"

subsection \<open>Start of \<open>main\<close> (lines 150--168)\<close>

text \<open>
  \<open>makedirs\<close> is what \<open>os.makedirs\<close> raises, if anything (it is outside every \<open>try\<close>).
  \<open>create\<close> says how far the creation of the data file gets inside the \<open>try\<close> of lines
  153--160: the file cannot be opened, it is opened (and so created empty) but the header
  cannot be written, the header is written but \<open>chmod\<close> fails, or all three succeed.
  File permissions are not part of the model.
\<close>

datatype create_outcome = Created | OpenFails exn | WriteFails exn | ChmodFails exn

record init_env =
  makedirs :: "exn option"
  create :: create_outcome
  start_time :: datetime

definition ensure_data_file :: "init_env \<Rightarrow> world \<Rightarrow> exn + world" where
  "ensure_data_file ienv w =
     (case makedirs ienv of
        Some e \<Rightarrow> Inl e
      | None \<Rightarrow>
          if data_file w = None then
            Inr (case create ienv of
                   Created \<Rightarrow>
                     w\<lparr>data_file := Some (csv_line [''timestamp'', ''temperature'', ''humidity''])\<rparr>
                 | OpenFails e \<Rightarrow> w
                 | WriteFails e \<Rightarrow> w\<lparr>data_file := Some []\<rparr>
                 | ChmodFails e \<Rightarrow>
                     w\<lparr>data_file := Some (csv_line [''timestamp'', ''temperature'', ''humidity''])\<rparr>)
          else Inr w)"

text \<open>
  The local variables of \<open>main\<close> that live across iterations. \<open>log_time\<close> is assigned only at
  line 239; it is \<open>None\<close> for as long as the local is unbound.
\<close>

record loop_state = alert_state +
  hourly_temp :: "real list"
  hourly_hum :: "real list"
  last_hour :: datetime
  log_time :: "string option"

definition initial_loop_state :: "datetime \<Rightarrow> loop_state" where
  "initial_loop_state start =
     \<lparr>last_alert_time = (\<lambda>_. None), last_outside_state = (\<lambda>_. False),
      hourly_temp = [], hourly_hum = [], last_hour = replace_hour start, log_time = None\<rparr>"

subsection \<open>One iteration of the \<open>while True\<close> loop (lines 171--247)\<close>

text \<open>
  What an iteration finds outside the program: \<open>settings.json\<close> as line 171 finds it and the
  outcome of writing the defaults, the clock at line 177, the sensor and the settings file
  as \<open>get_current_data\<close> finds them, the clock at the two calls of \<open>should_alert\<close>, and
  the outcomes of the two possible mail transports and of the append to the data file.
\<close>

record cycle_env =
  settings_file :: settings_file
  defaults_write :: "exn option"
  timestamp :: datetime
  sensor :: sensor_env
  now_temp :: datetime
  now_hum :: datetime
  transport_temp :: "exn option"
  transport_hum :: "exn option"
  csv_write :: "exn option"

definition degree_sign :: string where
  \<comment> \<open>the character U+00B0 in UTF-8\<close>
  "degree_sign = [CHR 0xC2, CHR 0xB0]"

text \<open>Lines 194--231: accumulation and the two alert checks, for a reading that is present.\<close>

definition process_reading ::
  "builtins \<Rightarrow> cycle_env \<Rightarrow> json \<Rightarrow> real \<Rightarrow> real \<Rightarrow> real \<Rightarrow> real \<Rightarrow> real \<times> real
    \<Rightarrow> loop_state \<times> world \<Rightarrow> exn + loop_state \<times> world" where
  "process_reading bi env settings min_t max_t min_h max_h reading sw =
     (case (reading, sw) of ((temp, hum), (st, w)) \<Rightarrow>
        let st1 = st\<lparr>hourly_temp := hourly_temp st @ [temp],
                     hourly_hum := hourly_hum st @ [hum]\<rparr>;
            ts = format_timestamp bi (timestamp env)
        in case should_alert (now_temp env) Temp temp min_t max_t st1 of (alert_t, st2) \<Rightarrow>
           and_then
             (if alert_t then
                (if temp < min_t then
                   and_then (send_email bi (transport_temp env) ''Temperature LOW Alert''
                     (ts @ [CHR 0x0A] @ ''Temperature '' @ format_1f False temp @ degree_sign @
                      ''C, below '' @ str_float bi min_t @ degree_sign @ ''C.'') settings w)
                     (\<lambda>(sent, w'). Inr w')
                 else if temp > max_t then
                   and_then (send_email bi (transport_temp env) ''Temperature HIGH Alert''
                     (ts @ [CHR 0x0A] @ ''Temperature '' @ format_1f False temp @ degree_sign @
                      ''C, above '' @ str_float bi max_t @ degree_sign @ ''C.'') settings w)
                     (\<lambda>(sent, w'). Inr w')
                 else Inr w)
              else Inr w)
             (\<lambda>w1.
                case should_alert (now_hum env) Hum hum min_h max_h st2 of (alert_h, st3) \<Rightarrow>
                and_then
                  (if alert_h then
                     (if hum < min_h then
                        and_then (send_email bi (transport_hum env) ''Humidity LOW Alert''
                          (ts @ [CHR 0x0A] @ ''Humidity '' @ format_1f False hum @
                           ''%RH, below '' @ str_float bi min_h @ ''%RH.'') settings w1)
                          (\<lambda>(sent, w'). Inr w')
                      else if hum > max_h then
                        and_then (send_email bi (transport_hum env) ''Humidity HIGH Alert''
                          (ts @ [CHR 0x0A] @ ''Humidity '' @ format_1f False hum @
                           ''%RH, above '' @ str_float bi max_h @ ''%RH.'') settings w1)
                          (\<lambda>(sent, w'). Inr w')
                      else Inr w1)
                   else Inr w1)
                  (\<lambda>w2. Inr (st3, w2))))"

text \<open>
  Lines 234--247: the hourly average. The \<open>else\<close> branch formats \<open>log_time\<close> into the line
  it prints, which raises \<open>UnboundLocalError\<close> while the local is unbound.
\<close>

definition rollover ::
  "builtins \<Rightarrow> cycle_env \<Rightarrow> loop_state \<times> world \<Rightarrow> exn + loop_state \<times> world" where
  "rollover bi env sw =
     (case sw of (st, w) \<Rightarrow>
        let current_hour = replace_hour (timestamp env)
        in if current_hour > last_hour st then
             and_then
               (if hourly_temp st \<noteq> [] \<and> hourly_hum st \<noteq> [] then
                  (let avg_temp = sum_list (hourly_temp st) / real (length (hourly_temp st));
                       avg_hum = sum_list (hourly_hum st) / real (length (hourly_hum st));
                       lt = strftime_minutes bi (current_hour - timedelta_hours 1)
                   in Inr (st\<lparr>log_time := Some lt\<rparr>,
                           append_csv (csv_write env)
                             [lt, format_1f False avg_temp, format_1f True avg_hum] w))
                else
                  (case log_time st of
                     None \<Rightarrow>
                       Inl (Raise UnboundLocalError
                         ''cannot access local variable log_time where it is not associated with a value'')
                   | Some lt \<Rightarrow> Inr (st, w)))
               (\<lambda>(st1, w1).
                  Inr (st1\<lparr>hourly_temp := [], hourly_hum := [], last_hour := current_hour\<rparr>, w1))
           else Inr (st, w))"

text \<open>
  The whole iteration up to the wait for the next reading. The wait (lines 249--277) only
  lets time pass and is not modelled. \<open>get_current_data\<close> is called with its defaults
  (5 retries, 2 seconds); whatever it raises is caught at line 189.
\<close>

definition cycle ::
  "builtins \<Rightarrow> cycle_env \<Rightarrow> loop_state \<times> world \<Rightarrow> exn + loop_state \<times> world" where
  "cycle bi env sw =
     and_then (load_settings (settings_file env) (defaults_write env)) (\<lambda>settings.
     and_then (and_then (dict_get settings ''min_temp'' (JFloat 18.0)) (py_float bi)) (\<lambda>min_t.
     and_then (and_then (dict_get settings ''max_temp'' (JFloat 26.0)) (py_float bi)) (\<lambda>max_t.
     and_then (and_then (dict_get settings ''min_hum'' (JFloat 50.0)) (py_float bi)) (\<lambda>min_h.
     and_then (and_then (dict_get settings ''max_hum'' (JFloat 70.0)) (py_float bi)) (\<lambda>max_h.
     and_then
       (case fst (get_current_data bi 5 2.0 (sensor env)) of
          Inl e \<Rightarrow> Inr sw
        | Inr reading \<Rightarrow> process_reading bi env settings min_t max_t min_h max_h reading sw)
       (rollover bi env))))))"

text \<open>
  \<open>main\<close> never returns by itself. \<open>main_loop\<close> runs the iterations whose environments are
  listed: \<open>Inr\<close> is the state after the last of them, with the loop still running;
  \<open>Inl e\<close> says that an iteration raised \<open>e\<close>, which ends \<open>main\<close> and the process.
\<close>

fun main_loop ::
  "builtins \<Rightarrow> cycle_env list \<Rightarrow> loop_state \<times> world \<Rightarrow> exn + loop_state \<times> world" where
  "main_loop bi [] sw = Inr sw"
| "main_loop bi (env # envs) sw = and_then (cycle bi env sw) (main_loop bi envs)"

definition main ::
  "builtins \<Rightarrow> init_env \<Rightarrow> cycle_env list \<Rightarrow> world \<Rightarrow> exn + loop_state \<times> world" where
  "main bi ienv envs w =
     and_then (ensure_data_file ienv w) (\<lambda>w0.
       main_loop bi envs (initial_loop_state (start_time ienv), w0))"

text \<open>
  Running \<open>monitor.py\<close>: line 21 loads \<open>current_data\<close>, whose module-level statements run
  first; then the module-level statements of \<open>monitor.py\<close> itself; then \<open>main\<close>.
\<close>

definition monitor_py ::
  "builtins \<Rightarrow> host \<Rightarrow> init_env \<Rightarrow> cycle_env list \<Rightarrow> world \<Rightarrow> exn + loop_state \<times> world" where
  "monitor_py bi h ienv envs w =
     and_then (module_level bi h) (\<lambda>imported.
     and_then (module_level bi h) (\<lambda>diag.
       main bi ienv envs w))"

text \<open>
  Running \<open>current_data.py\<close> as a script: the module-level statements, then one call of
  \<open>get_current_data\<close> inside a \<open>try\<close> that catches every exception. The result is what the
  call did to the sensor.
\<close>

definition current_data_py :: "builtins \<Rightarrow> host \<Rightarrow> sensor_env \<Rightarrow> exn + sensor_trace" where
  "current_data_py bi h senv =
     and_then (module_level bi h) (\<lambda>diag. Inr (snd (get_current_data bi 5 2.0 senv)))"

section \<open>Concrete environments\<close>

text \<open>
  Stand-ins for the library functions and a sensor that reports \<open>None\<close> on every attempt,
  for evaluating the definitions on concrete inputs.
\<close>

definition plain_builtins :: builtins where
  "plain_builtins =
     \<lparr>int_of_str = (\<lambda>s. None), float_of_str = (\<lambda>s. None), str_float = (\<lambda>x. ''?''),
      str_json = (\<lambda>j. ''?''), strftime_minutes = (\<lambda>t. str_int (t div 60000000))\<rparr>"

definition reports_null :: "attempt \<Rightarrow> bool" where
  "reports_null a =
     (case (temperature a, humidity a) of
        (Inr t, Inr h) \<Rightarrow> t = None \<or> h = None
      | _ \<Rightarrow> False)"

definition null_sensor_env :: sensor_env where
  "null_sensor_env =
     \<lparr>sensor_settings_file = Some (Inr (JObj [(''data_pin'', JInt 4)])),
      board_has_pin = (\<lambda>p. p = JInt 4),
      dht_init = None,
      dht = (\<lambda>i. \<lparr>temperature = Inr None, humidity = Inr None\<rparr>)\<rparr>"

definition desktop_host :: host where
  \<comment> \<open>a machine without \<open>/sys/class/thermal/thermal_zone0/temp\<close>\<close>
  "desktop_host =
     \<lparr>thermal_zone0 = Inl (Raise FileNotFoundError ''No such file or directory''),
      mem_percent = 50, mem_used = 4294967296, mem_total = 8589934592\<rparr>"

definition clock :: "int \<Rightarrow> int \<Rightarrow> datetime" where
  \<comment> \<open>hours and minutes of one day\<close>
  "clock h m = timedelta_hours h + timedelta_seconds (60 * m)"

definition fresh_start :: "datetime \<Rightarrow> init_env" where
  "fresh_start t = \<lparr>makedirs = None, create = Created, start_time = t\<rparr>"

definition empty_world :: world where
  "empty_world = \<lparr>data_file = None, outbox = []\<rparr>"

text \<open>
  An iteration at time \<open>t\<close> with the default settings on disk, the sensor reporting \<open>None\<close>
  and every other operation succeeding; and the same iteration with a \<open>settings.json\<close>
  that does not parse.
\<close>

definition quiet_cycle_env :: "datetime \<Rightarrow> cycle_env" where
  "quiet_cycle_env t =
     \<lparr>settings_file = Some (Inr defaults), defaults_write = None, timestamp = t,
      sensor = null_sensor_env, now_temp = t, now_hum = t,
      transport_temp = None, transport_hum = None, csv_write = None\<rparr>"

definition corrupt_settings_env :: "datetime \<Rightarrow> cycle_env" where
  "corrupt_settings_env t =
     (quiet_cycle_env t)\<lparr>settings_file := Some (Inl (Raise JSONDecodeError ''Expecting value''))\<rparr>"

section \<open>Properties of the alert decision\<close>

lemma should_alert_within:
  "lo \<le> v \<Longrightarrow> v \<le> hi \<Longrightarrow>
   should_alert now k v lo hi st =
     (False, st\<lparr>last_outside_state := (last_outside_state st)(k := False)\<rparr>)"
  by (simp add: should_alert_def)

lemma alert_run_append:
  "alert_run k lo hi (xs @ ys) st =
     (case alert_run k lo hi xs st of (as, st') \<Rightarrow>
        (case alert_run k lo hi ys st' of (bs, st'') \<Rightarrow> (as @ bs, st'')))"
  by (induction xs arbitrary: st) (auto split: prod.splits)

lemma alert_run_within:
  "list_all (\<lambda>(t, v). lo \<le> v \<and> v \<le> hi) ws \<Longrightarrow>
   alert_run k lo hi ws st =
     (replicate (length ws) False,
      if ws = [] then st else st\<lparr>last_outside_state := (last_outside_state st)(k := False)\<rparr>)"
  by (induction ws arbitrary: st) (auto simp: should_alert_within)

text \<open>
  Claim C1. One call of \<open>should_alert\<close> for a metric \<open>k\<close>, a value \<open>v\<close>, bounds
  \<open>[lo, hi]\<close> and a prior state obeys the three-case rule. If \<open>v\<close> is within \<open>[lo, hi]\<close> the
  metric's state becomes within-range and no alert is returned. If \<open>v\<close> is outside and the
  prior state was within-range, the state becomes outside-range and no alert is returned.
  If \<open>v\<close> is outside and the prior state was outside-range, an alert is returned exactly
  when the last alert time is unset or at least one hour lies between it and \<open>now\<close>; the
  state stays outside-range, and a returned alert sets the last alert time to \<open>now\<close>. In
  every case without an alert the last alert time is left as it was.
\<close>

theorem should_alert_three_cases:
  "(case should_alert now k v lo hi st of (alert, st') \<Rightarrow>
     (lo \<le> v \<and> v \<le> hi \<longrightarrow>
        \<not> alert \<and> \<not> last_outside_state st' k \<and> last_alert_time st' k = last_alert_time st k) \<and>
     ((v < lo \<or> hi < v) \<and> \<not> last_outside_state st k \<longrightarrow>
        \<not> alert \<and> last_outside_state st' k \<and> last_alert_time st' k = last_alert_time st k) \<and>
     ((v < lo \<or> hi < v) \<and> last_outside_state st k \<longrightarrow>
        (alert \<longleftrightarrow> (case last_alert_time st k of None \<Rightarrow> True
                      | Some t \<Rightarrow> timedelta_hours 1 \<le> now - t)) \<and>
        last_outside_state st' k \<and>
        last_alert_time st' k = (if alert then Some now else last_alert_time st k)))"
  by (auto simp: should_alert_def Let_def split: option.splits)

theorem should_alert_three_cases_witness:
  "\<not> fst (should_alert 0 Temp 20 18 22 (initial_alert_state\<lparr>last_outside_state := (\<lambda>_. True)\<rparr>)) \<and>
   \<not> last_outside_state (snd (should_alert 0 Temp 20 18 22
        (initial_alert_state\<lparr>last_outside_state := (\<lambda>_. True)\<rparr>))) Temp \<and>
   \<not> fst (should_alert 0 Temp 23 18 22 initial_alert_state) \<and>
   last_outside_state (snd (should_alert 0 Temp 23 18 22 initial_alert_state)) Temp \<and>
   fst (should_alert 5 Hum 30 40 70 (initial_alert_state\<lparr>last_outside_state := (\<lambda>_. True)\<rparr>)) \<and>
   last_alert_time (snd (should_alert 5 Hum 30 40 70
        (initial_alert_state\<lparr>last_outside_state := (\<lambda>_. True)\<rparr>))) Hum = Some 5"
  using should_alert_three_cases [where now = 0 and k = Temp and v = 20 and lo = 18 and hi = 22
          and st = "initial_alert_state\<lparr>last_outside_state := (\<lambda>_. True)\<rparr>"]
        should_alert_three_cases [where now = 0 and k = Temp and v = 23 and lo = 18 and hi = 22
          and st = initial_alert_state]
        should_alert_three_cases [where now = 5 and k = Hum and v = 30 and lo = 40 and hi = 70
          and st = "initial_alert_state\<lparr>last_outside_state := (\<lambda>_. True)\<rparr>"]
  by (simp add: initial_alert_state_def split: prod.splits)

text \<open>
  Claim C2, as stated, fails. With bounds \<open>[18, 22]\<close> and a temperature of 23 at cycle 1
  (time 0), at cycle 2 one minute later and at a cycle exactly one hour after cycle 1, the
  code returns no alert at cycle 1, an alert at cycle 2 (the last alert time is still
  unset, so line 210 lets the alert through) and no alert at the third cycle (only 59
  minutes have passed since the alert of cycle 2). The claim expects no alert at cycle 2
  and an alert at the third cycle.
\<close>

theorem cooldown_scenario_counterexample:
  "fst (alert_run Temp 18 22
          [(0, 23), (timedelta_seconds 60, 23), (timedelta_hours 1, 23)] initial_alert_state)
     = [False, True, False]"
  by (simp add: should_alert_def initial_alert_state_def timedelta_hours_def
        timedelta_seconds_def)

text \<open>
  Claim C2, amended. Starting from the initial state, when a metric is above \<open>max_val\<close> at
  three successive calls at times \<open>t1\<close>, \<open>t2\<close>, \<open>t3\<close>: no alert is returned at the first
  call, an alert is returned at the second call, and an alert is returned at the third
  call exactly when at least one hour lies between \<open>t2\<close> and \<open>t3\<close>.
\<close>

theorem cooldown_scenario_amended:
  "max_val < v1 \<Longrightarrow> max_val < v2 \<Longrightarrow> max_val < v3 \<Longrightarrow>
   fst (alert_run k min_val max_val [(t1, v1), (t2, v2), (t3, v3)] initial_alert_state)
     = [False, True, timedelta_hours 1 \<le> t3 - t2]"
  by (simp add: should_alert_def initial_alert_state_def)

theorem cooldown_scenario_amended_witness:
  "fst (alert_run Temp 18 22
          [(0, 23), (timedelta_seconds 60, 23), (timedelta_seconds 60 + timedelta_hours 1, 23)]
          initial_alert_state)
     = [False, True, True]"
  using cooldown_scenario_amended [where k = Temp and min_val = 18 and max_val = 22
          and ?v1.0 = 23 and ?v2.0 = 23 and ?v3.0 = 23 and ?t1.0 = 0
          and ?t2.0 = "timedelta_seconds 60"
          and ?t3.0 = "timedelta_seconds 60 + timedelta_hours 1"]
  by simp

text \<open>
  Claim C3, as stated, fails. With bounds \<open>[18, 22]\<close>: a breach at minute 0 arms, the breach
  at minute 5 alerts, the reading at minute 10 is back within range, the breach at minute
  15 arms again, and the second consecutive re-breach at minute 20 returns no alert,
  because the last alert time of minute 5 is kept when the value returns within range and
  is less than one hour old. The claim expects an alert at minute 20.
\<close>

theorem rebreach_counterexample:
  "fst (alert_run Temp 18 22
          [(0, 23), (timedelta_seconds 300, 23), (timedelta_seconds 600, 20),
           (timedelta_seconds 900, 23), (timedelta_seconds 1200, 23)] initial_alert_state)
     = [False, True, False, False, False]"
  by (simp add: should_alert_def initial_alert_state_def timedelta_hours_def
        timedelta_seconds_def)

text \<open>
  Claim C3, amended. From any state of a metric (in particular one left by an earlier
  breach episode whose alert fired at time \<open>ta\<close>), after one or more readings within
  \<open>[lo, hi]\<close> followed by two consecutive readings outside \<open>[lo, hi]\<close> at times \<open>t1\<close> and
  \<open>t2\<close>: none of the within-range calls alerts, the first re-breach call arms without
  alerting, and the second re-breach call alerts exactly when the last alert time is unset
  or at least one hour lies between \<open>ta\<close> and \<open>t2\<close>. Returning within range clears the
  outside flag only; the last alert time survives it.
\<close>

theorem rebreach_amended:
  assumes "ws \<noteq> []"
    and "list_all (\<lambda>(t, v). lo \<le> v \<and> v \<le> hi) ws"
    and "v1 < lo \<or> hi < v1"
    and "v2 < lo \<or> hi < v2"
  shows "fst (alert_run k lo hi (ws @ [(t1, v1), (t2, v2)]) st) =
           replicate (length ws) False @
           [False, (case last_alert_time st k of None \<Rightarrow> True
                    | Some ta \<Rightarrow> timedelta_hours 1 \<le> t2 - ta)]"
  using assms
  by (auto simp: alert_run_append alert_run_within should_alert_def split: option.splits)

theorem rebreach_amended_witness:
  "fst (alert_run Temp 18 22
          ([(timedelta_seconds 600, 20)] @ [(timedelta_seconds 900, 23), (timedelta_seconds 1200, 23)])
          (initial_alert_state\<lparr>last_alert_time := (\<lambda>_. Some (timedelta_seconds 300)),
                               last_outside_state := (\<lambda>_. True)\<rparr>))
     = [False, False, False]"
  using rebreach_amended [where ws = "[(timedelta_seconds 600, 20)]" and lo = 18 and hi = 22
          and ?v1.0 = 23 and ?v2.0 = 23 and k = Temp
          and ?t1.0 = "timedelta_seconds 900" and ?t2.0 = "timedelta_seconds 1200"
          and st = "initial_alert_state\<lparr>last_alert_time := (\<lambda>_. Some (timedelta_seconds 300)),
                               last_outside_state := (\<lambda>_. True)\<rparr>"]
  by (simp add: initial_alert_state_def timedelta_hours_def timedelta_seconds_def)

section \<open>Properties of sensor acquisition\<close>

lemma read_attempt_null:
  "reports_null a \<Longrightarrow> read_attempt a = Inl (Raise RuntimeError ''Received None from sensor'')"
  by (auto simp: reports_null_def read_attempt_def split: sum.splits option.splits)

lemma retry_loop_all_null:
  "\<forall>i. reports_null (dev i) \<Longrightarrow> 0 \<le> retry_delay \<Longrightarrow>
   retry_loop dev retry_delay max_retries attempt left tr =
     (Inl (Raise RuntimeError
        (''Failed to read valid data from DHT22 after '' @ str_int max_retries @ '' attempts'')),
      tr\<lparr>reads := reads tr + left, sleeps := sleeps tr @ replicate left retry_delay\<rparr>)"
proof (induction left arbitrary: attempt tr)
  case 0
  then show ?case by simp
next
  case (Suc left)
  then show ?case
    by (simp add: read_attempt_null replicate_append_same)
qed

lemma str_int_3: "str_int 3 = ''3''"
  by (simp add: str_int_def str_nat.simps digit_char_def)

lemma null_sensor_env_fails:
  "\<exists>e. fst (get_current_data bi 5 2.0 null_sensor_env) = Inl e"
proof -
  have "\<forall>i. reports_null (dht null_sensor_env i)"
    by (simp add: null_sensor_env_def reports_null_def)
  then show ?thesis
    by (simp add: get_current_data_def current_data_load_settings_def dict_get_def
          retry_loop_all_null null_sensor_env_def split: prod.splits)
qed

text \<open>
  Claim C7. For a sensor that reports \<open>None\<close> for temperature or humidity on every attempt
  (with a configured data pin that the board knows and a device that can be opened),
  \<open>get_current_data\<close> with \<open>max_retries = 3\<close> and \<open>retry_delay = 0\<close> reads the device exactly
  three times, sleeps three times for 0 seconds, releases the device, and raises the
  \<open>RuntimeError\<close> of line 97 that reports the exhausted retries; it returns no reading and
  makes no fourth read.
\<close>

theorem retry_exhaustion:
  assumes "sensor_settings_file env = Some (Inr (JObj kvs))"
    and "map_of kvs ''data_pin'' = Some pin"
    and "pin \<noteq> JNull"
    and "board_has_pin env pin"
    and "dht_init env = None"
    and "\<forall>i. reports_null (dht env i)"
  shows "get_current_data bi 3 0 env =
           (Inl (Raise RuntimeError ''Failed to read valid data from DHT22 after 3 attempts''),
            \<lparr>reads = 3, sleeps = [0, 0, 0], released = True\<rparr>)"
proof -
  let ?tr0 = "\<lparr>reads = 0, sleeps = [], released = False\<rparr>"
  have three: "replicate (nat 3) (0::real) = [0, 0, 0]"
    by (simp add: numeral_3_eq_3)
  have "retry_loop (dht env) 0 3 0 (nat 3) ?tr0 =
          (Inl (Raise RuntimeError ''Failed to read valid data from DHT22 after 3 attempts''),
           \<lparr>reads = 3, sleeps = [0, 0, 0], released = False\<rparr>)"
    using assms(6) by (simp add: retry_loop_all_null str_int_3 three del: nat_numeral)
  with assms(1-5) show ?thesis
    by (simp add: get_current_data_def current_data_load_settings_def dict_get_def
          del: nat_numeral)
qed

theorem retry_exhaustion_witness:
  "get_current_data plain_builtins 3 0 null_sensor_env =
     (Inl (Raise RuntimeError ''Failed to read valid data from DHT22 after 3 attempts''),
      \<lparr>reads = 3, sleeps = [0, 0, 0], released = True\<rparr>)"
  using retry_exhaustion [where env = null_sensor_env and kvs = "[(''data_pin'', JInt 4)]"
          and pin = "JInt 4" and bi = plain_builtins]
  by (simp add: null_sensor_env_def reports_null_def)

section \<open>Properties of the module-level host diagnostics\<close>

text \<open>
  Claim C10. On a host where the thermal path is absent, \<open>get_cpu_temp\<close> returns \<open>None\<close>, the
  module-level computation of the percentage subtracts \<open>MIN_T\<close> from \<open>None\<close> and raises
  \<open>TypeError\<close>, and so loading the module fails: running \<open>monitor.py\<close> raises that
  \<open>TypeError\<close> whatever the environment of \<open>main\<close> and of its iterations would have been
  (no iteration runs), and running \<open>current_data.py\<close> raises it before the sensor is read.
\<close>

theorem import_fails_without_thermal_zone:
  assumes "thermal_zone0 h = Inl (Raise FileNotFoundError msg)"
  shows "get_cpu_temp bi h = Inr None \<and>
         module_level bi h =
           Inl (Raise TypeError ''unsupported operand type(s) for -: NoneType and int'') \<and>
         monitor_py bi h ienv envs w =
           Inl (Raise TypeError ''unsupported operand type(s) for -: NoneType and int'') \<and>
         current_data_py bi h senv =
           Inl (Raise TypeError ''unsupported operand type(s) for -: NoneType and int'')"
  using assms
  by (simp add: get_cpu_temp_def module_level_def monitor_py_def current_data_py_def and_then_def)

theorem import_fails_without_thermal_zone_witness:
  "get_cpu_temp plain_builtins desktop_host = Inr None \<and>
   monitor_py plain_builtins desktop_host (fresh_start (clock 10 58))
       [quiet_cycle_env (clock 11 3)] empty_world =
     Inl (Raise TypeError ''unsupported operand type(s) for -: NoneType and int'') \<and>
   current_data_py plain_builtins desktop_host null_sensor_env =
     Inl (Raise TypeError ''unsupported operand type(s) for -: NoneType and int'')"
  using import_fails_without_thermal_zone [where h = desktop_host
          and msg = "''No such file or directory''" and bi = plain_builtins
          and ienv = "fresh_start (clock 10 58)" and envs = "[quiet_cycle_env (clock 11 3)]"
          and w = empty_world and senv = null_sensor_env]
  by (simp add: desktop_host_def)

section \<open>Properties of the data file\<close>

lemma header_line:
  "csv_line [''timestamp'', ''temperature'', ''humidity''] =
     ''timestamp,temperature,humidity'' @ [CHR 0x0D, CHR 0x0A]"
  by (simp add: csv_line_def csv_field_def csv_special_def)

text \<open>
  Claim C9. Initialising the data file is idempotent. If the file is absent (and the
  directory and the file can be created and written), it is created holding exactly the
  header row \<open>timestamp,temperature,humidity\<close>. If the file exists, with any content, the
  initialisation leaves the world exactly as it was. Running the initialisation twice in
  a row gives the same result as running it once.
\<close>

theorem ensure_data_file_idempotent:
  "(data_file w = None \<and> makedirs ienv = None \<and> create ienv = Created \<longrightarrow>
      ensure_data_file ienv w =
        Inr (w\<lparr>data_file := Some (''timestamp,temperature,humidity'' @ [CHR 0x0D, CHR 0x0A])\<rparr>)) \<and>
   (data_file w \<noteq> None \<longrightarrow>
      ensure_data_file ienv w = (case makedirs ienv of Some e \<Rightarrow> Inl e | None \<Rightarrow> Inr w)) \<and>
   and_then (ensure_data_file ienv w) (ensure_data_file ienv) = ensure_data_file ienv w"
  by (auto simp: ensure_data_file_def and_then_def header_line
        split: option.splits create_outcome.splits)

theorem ensure_data_file_idempotent_witness:
  "ensure_data_file (fresh_start 0) empty_world =
     Inr \<lparr>data_file = Some (''timestamp,temperature,humidity'' @ [CHR 0x0D, CHR 0x0A]),
          outbox = []\<rparr> \<and>
   ensure_data_file (fresh_start 0) \<lparr>data_file = Some ''anything'', outbox = []\<rparr> =
     Inr \<lparr>data_file = Some ''anything'', outbox = []\<rparr> \<and>
   and_then (ensure_data_file (fresh_start 0) empty_world) (ensure_data_file (fresh_start 0)) =
     Inr \<lparr>data_file = Some (''timestamp,temperature,humidity'' @ [CHR 0x0D, CHR 0x0A]),
          outbox = []\<rparr>"
  using ensure_data_file_idempotent [where w = empty_world and ienv = "fresh_start 0"]
        ensure_data_file_idempotent [where w = "\<lparr>data_file = Some ''anything'', outbox = []\<rparr>"
          and ienv = "fresh_start 0"]
  by (simp add: fresh_start_def empty_world_def and_then_def ensure_data_file_def)

section \<open>Properties of \<open>send_email\<close>\<close>

lemma send_email_returns:
  assumes "and_then (dict_get settings ''smtp_port'' (JInt 465)) (py_int bi) = Inr port"
  shows "\<exists>sent w'. send_email bi transport subject body settings w = Inr (sent, w')"
proof (cases settings)
  case (JObj kvs)
  with assms show ?thesis
    by (cases transport) (auto simp: send_email_def and_then_def dict_get_def Let_def)
qed (use assms in \<open>simp_all add: and_then_def dict_get_def\<close>)

text \<open>
  For settings whose \<open>smtp_port\<close> is absent or convertible by \<open>int\<close>, \<open>send_email\<close> behaves as
  claim C8 says: with a user, password or recipient that is absent or empty nothing is
  sent and \<open>False\<close> is returned; a transport that raises gives \<open>False\<close>; no exception leaves
  the function.
\<close>

lemma send_email_contained:
  assumes "and_then (dict_get (JObj kvs) ''smtp_port'' (JInt 465)) (py_int bi) = Inr port"
  shows "(\<not> (truthy (py_or (case map_of kvs ''email_user'' of None \<Rightarrow> JNull | Some v \<Rightarrow> v) (JStr '''')) \<and>
             truthy (py_or (case map_of kvs ''email_pass'' of None \<Rightarrow> JNull | Some v \<Rightarrow> v) (JStr '''')) \<and>
             truthy (py_or (case map_of kvs ''email_to'' of None \<Rightarrow> JNull | Some v \<Rightarrow> v) (JStr '''')))
          \<longrightarrow> send_email bi transport subject body (JObj kvs) w = Inr (False, w)) \<and>
         (transport \<noteq> None
          \<longrightarrow> send_email bi transport subject body (JObj kvs) w = Inr (False, w))"
  using assms
  by (auto simp: send_email_def and_then_def dict_get_def Let_def split: option.splits)

text \<open>
  Claim C8 fails on the code. With the settings \<open>{"smtp_port": null}\<close> (no credentials at
  all, so the claim expects \<open>False\<close> and no exception), the conversion \<open>int(...)\<close> of line 65
  runs before the guard of line 67 and outside the \<open>try\<close> of line 71, and its \<open>TypeError\<close>
  leaves \<open>send_email\<close>, for every subject, body and transport behaviour.
\<close>

theorem send_email_bad_port_raises:
  "send_email bi transport subject body (JObj [(''smtp_port'', JNull)]) w =
     Inl (Raise TypeError
            ''int() argument must be a string, a bytes-like object or a real number'')"
  by (simp add: send_email_def and_then_def dict_get_def)

theorem send_email_bad_port_raises_witness:
  "send_email plain_builtins None ''Temperature HIGH Alert'' ''body''
     (JObj [(''smtp_port'', JNull)]) empty_world =
     Inl (Raise TypeError
            ''int() argument must be a string, a bytes-like object or a real number'')"
  using send_email_bad_port_raises [where bi = plain_builtins and transport = None
          and subject = "''Temperature HIGH Alert''" and body = "''body''" and w = empty_world]
  by simp

section \<open>Properties of the loop iteration\<close>

lemma process_reading_returns:
  assumes "and_then (dict_get settings ''smtp_port'' (JInt 465)) (py_int bi) = Inr port"
  shows "\<exists>st' w'. process_reading bi env settings min_t max_t min_h max_h reading (st, w) = Inr (st', w')
           \<and> log_time st' = log_time st"
proof -
  have se: "\<And>tr subj body w0. \<exists>w'. and_then (send_email bi tr subj body settings w0)
              (\<lambda>(sent, w'). Inr w') = (Inr w' :: exn + world)"
  proof -
    fix tr subj body w0
    from send_email_returns [OF assms, of tr subj body w0]
    obtain sent w' where "send_email bi tr subj body settings w0 = Inr (sent, w')" by blast
    then show "\<exists>w'. and_then (send_email bi tr subj body settings w0)
              (\<lambda>(sent, w'). Inr w') = (Inr w' :: exn + world)"
      by (simp add: and_then_def)
  qed
  obtain temp hum where r: "reading = (temp, hum)" by (cases reading)
  let ?st1 = "st\<lparr>hourly_temp := hourly_temp st @ [temp], hourly_hum := hourly_hum st @ [hum]\<rparr>"
  obtain a_t st2 where sa1: "should_alert (now_temp env) Temp temp min_t max_t ?st1 = (a_t, st2)"
    by (cases "should_alert (now_temp env) Temp temp min_t max_t ?st1")
  obtain a_h st3 where sa2: "should_alert (now_hum env) Hum hum min_h max_h st2 = (a_h, st3)"
    by (cases "should_alert (now_hum env) Hum hum min_h max_h st2")
  let ?ts = "format_timestamp bi (timestamp env)"
  define first where "first =
     (if a_t then
                (if temp < min_t then
                   and_then (send_email bi (transport_temp env) ''Temperature LOW Alert''
                     (?ts @ [CHR 0x0A] @ ''Temperature '' @ format_1f False temp @ degree_sign @
                      ''C, below '' @ str_float bi min_t @ degree_sign @ ''C.'') settings w)
                     (\<lambda>(sent, w'). Inr w')
                 else if temp > max_t then
                   and_then (send_email bi (transport_temp env) ''Temperature HIGH Alert''
                     (?ts @ [CHR 0x0A] @ ''Temperature '' @ format_1f False temp @ degree_sign @
                      ''C, above '' @ str_float bi max_t @ degree_sign @ ''C.'') settings w)
                     (\<lambda>(sent, w'). Inr w')
                 else Inr w)
              else (Inr w :: exn + world))"
  have "\<exists>w1. first = Inr w1"
    unfolding first_def using se by auto
  then obtain w1 where f1: "first = Inr w1" by blast
  define second where "second =
                  (if a_h then
                     (if hum < min_h then
                        and_then (send_email bi (transport_hum env) ''Humidity LOW Alert''
                          (?ts @ [CHR 0x0A] @ ''Humidity '' @ format_1f False hum @
                           ''%RH, below '' @ str_float bi min_h @ ''%RH.'') settings w1)
                          (\<lambda>(sent, w'). Inr w')
                      else if hum > max_h then
                        and_then (send_email bi (transport_hum env) ''Humidity HIGH Alert''
                          (?ts @ [CHR 0x0A] @ ''Humidity '' @ format_1f False hum @
                           ''%RH, above '' @ str_float bi max_h @ ''%RH.'') settings w1)
                          (\<lambda>(sent, w'). Inr w')
                      else Inr w1)
                   else (Inr w1 :: exn + world))"
  have "\<exists>w2. second = Inr w2"
    unfolding second_def using se by auto
  then obtain w2 where f2: "second = Inr w2" by blast
  have "process_reading bi env settings min_t max_t min_h max_h reading (st, w) = Inr (st3, w2)"
    using f1 f2 sa1 sa2 unfolding first_def second_def
    by (simp add: process_reading_def r Let_def and_then_def)
  moreover have "log_time st3 = log_time st"
    using sa1 sa2 by (auto simp: should_alert_def Let_def split: if_splits)
  ultimately show ?thesis by blast
qed

lemma rollover_returns:
  assumes "log_time st \<noteq> None \<or> (hourly_temp st \<noteq> [] \<and> hourly_hum st \<noteq> [])"
  shows "\<exists>sw'. rollover bi env (st, w) = Inr sw'"
  using assms by (auto simp: rollover_def and_then_def Let_def)

text \<open>
  What the code does contain: once the settings are read and their thresholds and port
  convert, and \<open>log_time\<close> is bound, an iteration returns to the top of the loop whatever
  the sensor, the two mail transports and the append to the data file do.
\<close>

lemma cycle_returns:
  assumes "load_settings (settings_file env) (defaults_write env) = Inr settings"
    and "and_then (dict_get settings ''min_temp'' (JFloat 18.0)) (py_float bi) = Inr min_t"
    and "and_then (dict_get settings ''max_temp'' (JFloat 26.0)) (py_float bi) = Inr max_t"
    and "and_then (dict_get settings ''min_hum'' (JFloat 50.0)) (py_float bi) = Inr min_h"
    and "and_then (dict_get settings ''max_hum'' (JFloat 70.0)) (py_float bi) = Inr max_h"
    and "and_then (dict_get settings ''smtp_port'' (JInt 465)) (py_int bi) = Inr port"
    and "log_time st \<noteq> None"
  shows "\<exists>sw'. cycle bi env (st, w) = Inr sw'"
proof (cases "fst (get_current_data bi 5 2.0 (sensor env))")
  case (Inl e)
  from rollover_returns [of st bi env w] assms(7)
  obtain sw' where "rollover bi env (st, w) = Inr sw'" by blast
  with Inl assms(1-5) show ?thesis
    by (simp add: cycle_def and_then_def)
next
  case (Inr reading)
  from process_reading_returns [OF assms(6), of env min_t max_t min_h max_h reading st w]
  obtain st' w' where
    pr: "process_reading bi env settings min_t max_t min_h max_h reading (st, w) = Inr (st', w')"
    and lt: "log_time st' = log_time st" by blast
  from rollover_returns [of st' bi env w'] lt assms(7)
  obtain sw' where "rollover bi env (st', w') = Inr sw'" by auto
  with Inr pr assms(1-5) show ?thesis
    by (simp add: cycle_def and_then_def)
qed

text \<open>
  Claim C4 fails on the code for the settings read. When reading \<open>settings.json\<close> at line
  171 raises (the file does not parse, or cannot be opened), no handler is around the
  call: the exception leaves the iteration and ends the loop, and no later iteration runs.
\<close>

theorem settings_failure_ends_main_loop:
  "settings_file env = Some (Inl e) \<Longrightarrow> main_loop bi (env # envs) sw = Inl e"
  by (simp add: cycle_def load_settings_def and_then_def)

theorem settings_failure_ends_main_loop_witness:
  "main_loop plain_builtins [corrupt_settings_env (clock 10 58), quiet_cycle_env (clock 11 3)]
     (initial_loop_state (clock 10 53), empty_world) =
     Inl (Raise JSONDecodeError ''Expecting value'')"
  using settings_failure_ends_main_loop [where env = "corrupt_settings_env (clock 10 58)"
          and e = "Raise JSONDecodeError ''Expecting value''" and bi = plain_builtins
          and envs = "[quiet_cycle_env (clock 11 3)]"
          and sw = "(initial_loop_state (clock 10 53), empty_world)"]
  by (simp add: corrupt_settings_env_def)

text \<open>
  Claim C5 fails on the code while \<open>log_time\<close> is unbound. At an hour boundary with an empty
  bucket, before any hourly average has been logged in this run, the \<open>else\<close> branch at
  line 243 formats the unbound local \<open>log_time\<close>: the iteration raises
  \<open>UnboundLocalError\<close>, lines 245--247 do not run, the bucket is not advanced and the loop
  ends.
\<close>

theorem rollover_empty_unbound_raises:
  "hourly_temp st = [] \<Longrightarrow> log_time st = None \<Longrightarrow> last_hour st < replace_hour (timestamp env) \<Longrightarrow>
   rollover bi env (st, w) =
     Inl (Raise UnboundLocalError
            ''cannot access local variable log_time where it is not associated with a value'')"
  by (simp add: rollover_def and_then_def)

theorem rollover_empty_unbound_raises_witness:
  "main plain_builtins (fresh_start (clock 10 58)) [quiet_cycle_env (clock 11 3)] empty_world =
     Inl (Raise UnboundLocalError
            ''cannot access local variable log_time where it is not associated with a value'')"
proof -
  let ?w0 = "\<lparr>data_file = Some (''timestamp,temperature,humidity'' @ [CHR 0x0D, CHR 0x0A]),
               outbox = []\<rparr>"
  have r: "rollover plain_builtins (quiet_cycle_env (clock 11 3))
             (initial_loop_state (clock 10 58), ?w0) =
           Inl (Raise UnboundLocalError
            ''cannot access local variable log_time where it is not associated with a value'')"
    using rollover_empty_unbound_raises [where st = "initial_loop_state (clock 10 58)"
            and env = "quiet_cycle_env (clock 11 3)" and bi = plain_builtins and w = ?w0]
    by (simp add: initial_loop_state_def quiet_cycle_env_def clock_def replace_hour_def
          timedelta_hours_def timedelta_seconds_def)
  obtain e where s: "fst (get_current_data plain_builtins 5 2.0 null_sensor_env) = Inl e"
    using null_sensor_env_fails by blast
  have c: "cycle plain_builtins (quiet_cycle_env (clock 11 3))
             (initial_loop_state (clock 10 58), ?w0) =
           rollover plain_builtins (quiet_cycle_env (clock 11 3))
             (initial_loop_state (clock 10 58), ?w0)"
    using s
    by (simp add: cycle_def quiet_cycle_env_def load_settings_def defaults_def dict_get_def
          and_then_def)
  have e: "ensure_data_file (fresh_start (clock 10 58)) empty_world = Inr ?w0"
    by (simp add: ensure_data_file_def fresh_start_def empty_world_def header_line)
  have t: "start_time (fresh_start (clock 10 58)) = clock 10 58"
    by (simp add: fresh_start_def)
  show ?thesis
    by (simp only: main_def e t and_then_def sum.case main_loop.simps c r)
qed

text \<open>
  Claim C6 holds for the averages and for the temperature field, and fails on the code for
  the humidity field. For a bucket with temperatures 21.0, 22.0, 23.0 and humidities 50.0,
  52.0, 54.0, the rollover computes the averages 22.0 and 52.0 and hands \<open>append_csv\<close> the
  row whose temperature field is \<open>22.0\<close> and whose humidity field is \<open> 52.0\<close> with a leading
  space: line 240 formats the humidity with the specification \<open> .1f\<close>, not \<open>.1f\<close>.
\<close>

theorem rollover_row_has_leading_space:
  "last_hour st < replace_hour (timestamp env) \<Longrightarrow>
   rollover bi env (st\<lparr>hourly_temp := [21.0, 22.0, 23.0], hourly_hum := [50.0, 52.0, 54.0]\<rparr>, w) =
     (let lt = strftime_minutes bi (replace_hour (timestamp env) - timedelta_hours 1)
      in Inr (st\<lparr>hourly_temp := [], hourly_hum := [], last_hour := replace_hour (timestamp env),
                  log_time := Some lt\<rparr>,
              append_csv (csv_write env) [lt, ''22.0'', '' 52.0''] w))"
  by (simp add: rollover_def and_then_def Let_def format_1f_def round_half_even_def
        str_nat.simps digit_char_def)

theorem rollover_row_has_leading_space_witness:
  "map_sum id (\<lambda>sw. data_file (snd sw))
     (rollover plain_builtins (quiet_cycle_env (clock 11 3))
        ((initial_loop_state (clock 10 58))
           \<lparr>hourly_temp := [21.0, 22.0, 23.0], hourly_hum := [50.0, 52.0, 54.0]\<rparr>,
         \<lparr>data_file = Some (''timestamp,temperature,humidity'' @ [CHR 0x0D, CHR 0x0A]),
          outbox = []\<rparr>)) =
   Inr (Some (''timestamp,temperature,humidity'' @ [CHR 0x0D, CHR 0x0A] @
              ''600,22.0, 52.0'' @ [CHR 0x0D, CHR 0x0A]))"
  using rollover_row_has_leading_space [where st = "initial_loop_state (clock 10 58)"
          and env = "quiet_cycle_env (clock 11 3)" and bi = plain_builtins
          and w = "\<lparr>data_file = Some (''timestamp,temperature,humidity'' @ [CHR 0x0D, CHR 0x0A]),
                     outbox = []\<rparr>"]
  by (simp add: initial_loop_state_def quiet_cycle_env_def clock_def replace_hour_def
        timedelta_hours_def timedelta_seconds_def plain_builtins_def append_csv_def
        csv_line_def csv_field_def csv_special_def str_int_def str_nat.simps digit_char_def)

end
